theory Spec2Isabelle
  imports Complex_Main
begin

section \<open>Values exchanged with the swarm library and the signaling link\<close>

text \<open>
  The class \<open>Client\<close> wraps one WebTorrent instance and one socket. JavaScript numbers
  are carried as reals: the client copies the handle's counters into its messages and
  never computes with them. \<open>timeRemaining\<close> may be \<open>Infinity\<close>.
\<close>

datatype duration = Millis real | Infinity

text \<open>An \<open>err\<close> value is \<open>string | Error\<close>; \<open>undefined\<close> is \<open>None\<close>.\<close>

datatype js_error = ErrorObj string | ErrorStr string

text \<open>JavaScript truthiness of \<open>err\<close> in \<open>if (err)\<close>: an empty string is falsy.\<close>

fun truthy_err :: "js_error option \<Rightarrow> bool" where
  "truthy_err None = False"
| "truthy_err (Some (ErrorObj m)) = True"
| "truthy_err (Some (ErrorStr m)) = (m \<noteq> [])"

text \<open>Truthiness of \<open>process.env.X\<close>: set and not empty.\<close>

fun truthy_env :: "string option \<Rightarrow> bool" where
  "truthy_env None = False"
| "truthy_env (Some v) = (v \<noteq> [])"

text \<open>The payload \<open>info: any\<close> of an inbound \<open>progressUpdate\<close> message.\<close>

datatype json =
    JUndefined
  | JNull
  | JBool bool
  | JNum real
  | JStr string
  | JArr "json list"
  | JObj "(string \<times> json) list"

text \<open>
  What the client's code throws: the TypeError of a property read on \<open>undefined\<close>, and
  the error that \<open>emit("error", err)\<close> throws when nobody listens for \<open>error\<close>.
\<close>

datatype exn = TypeError | Unhandled js_error

subsection \<open>What the client emits\<close>

text \<open>
  Events emitted to the local observer (\<open>this.emit\<close>). \<open>N_download\<close> carries
  \<open>downloadSpeed\<close>, \<open>downloaded\<close>, \<open>progress\<close>, \<open>progressFiles\<close>, \<open>timeRemaining\<close>;
  \<open>N_upload\<close> carries \<open>uploadSpeed\<close>, \<open>uploaded\<close>; \<open>N_fileDownloadComplete\<close> carries
  \<open>index\<close>, \<open>url\<close>.
\<close>

datatype notification =
    N_error js_error
  | N_upload string string
  | N_download string string real "real list" duration
  | N_progressUpdate json
  | N_fileDownloadComplete nat string
  | N_seeding
  | N_downloading
  | N_downloadComplete
  | N_torrentDestroyed
  | N_clientDestroyed

text \<open>
  Messages sent over the socket (\<open>this.socket.emit\<close>). \<open>S_progressUpdate\<close> carries
  \<open>progress\<close>, \<open>progressFiles\<close> (possibly still \<open>undefined\<close>) and \<open>timeRemaining\<close>.
\<close>

datatype socket_msg =
    S_fileReady string
  | S_progressUpdate real "real list option" duration
  | S_downloadComplete

text \<open>
  Calls made on the WebTorrent client, on a torrent (named by its position in
  \<open>client.torrents\<close>), on one of its files, and on \<open>window\<close>.
\<close>

datatype directive =
    Client_add string "string list"
  | Client_seed "string list" "string list"
  | Client_destroy
  | Torrent_destroy nat
  | Torrent_deselect nat int int int
  | File_select nat nat
  | File_deselect nat nat
  | File_getBlobURL nat nat
  | Set_interval nat nat
  | Clear_interval "nat option"

text \<open>The lines written with \<open>debug\<close>.\<close>

datatype log =
    L_stun_unset
  | L_using_stun string
  | L_tracker_unset
  | L_using_tracker string
  | L_client_error js_error
  | L_destroyed_by_server
  | L_got_length nat nat
  | L_ignored_selection
  | L_implemented_selection
  | L_beginning_download
  | L_blob_error string js_error
  | L_blob_undefined string
  | L_download_complete
  | L_torrent_error js_error
  | L_torrent_warning js_error

datatype effect =
    Notify notification
  | Send socket_msg
  | Do directive
  | Debug log
  | Uncaught exn

section \<open>The state\<close>

text \<open>
  A file of a torrent. \<open>name\<close> and \<open>fprogress\<close> (\<open>file.progress\<close>) are read by the
  client. Modelled from the spec: the flag \<open>selected\<close> is the download intent of the
  file, kept by the swarm library, which is not part of the sources; the spec's File
  Descriptor has it, and it is true for every file at session start.
\<close>

record file_handle =
  name :: string
  fprogress :: real
  selected :: bool

text \<open>The fields of a \<open>WebTorrent.Torrent\<close> that the client reads.\<close>

record swarm_handle =
  files :: "file_handle list"
  pieces :: nat
  progress :: real
  downloadSpeed :: real
  downloaded :: real
  uploadSpeed :: real
  uploaded :: real
  timeRemaining :: duration
  magnetURI :: string

text \<open>
  A torrent object together with what the client attached to it: \<open>seeded\<close> tells
  whether \<open>client.seed\<close> or \<open>client.add\<close> made it (so which callback it calls back),
  the listener counts say how often \<open>setTorrentErrorHandlers\<close> ran on it, how many
  \<open>upload\<close> and \<open>done\<close> listeners were added, and \<open>downloadInfoInterval\<close> and
  \<open>progressFiles\<close> are the two variables of the \<open>addTorrent\<close> call that made it
  (\<open>None\<close> is \<open>undefined\<close>).
\<close>

record torrent =
  handle :: swarm_handle
  seeded :: bool
  errorListeners :: nat
  uploadListeners :: nat
  doneListeners :: nat
  downloadInfoInterval :: "nat option"
  progressFiles :: "real list option"

text \<open>
  The \<open>Client\<close> object. \<open>torrents\<close> is \<open>this.client.torrents\<close>, in order of creation;
  \<open>timers\<close> holds the running intervals of \<open>window\<close> (identifier and the torrent
  whose closure the interval calls); \<open>progressUpdateListeners\<close> and
  \<open>torrentDoneListeners\<close> are the socket listeners added by the seed callbacks, the
  latter with the torrent each one destroys; \<open>errorObserved\<close> tells whether the local
  observer has added a listener for the \<open>error\<close> event of the client; \<open>trace\<close> is
  everything the client has emitted, sent, called, logged and thrown, oldest first.
\<close>

record client =
  TRACKER_URLS :: "string list"
  iceServers :: "string list"
  fileNames :: "string list option"
  torrents :: "torrent list"
  timers :: "(nat \<times> nat) list"
  nextTimer :: nat
  progressUpdateListeners :: nat
  torrentDoneListeners :: "nat list"
  errorObserved :: bool
  trace :: "effect list"

text \<open>
  \<open>this.emit\<close> is the method of the \<open>EventEmitter\<close> base class. It hands the event to
  the observer's listeners, but for one case: an \<open>error\<close> event that has no listener is
  thrown as an exception. \<open>unheard\<close> is that case; \<open>emit\<close> then leaves the exception in
  the trace in place of the event, and whoever called it has to stop there, which
  \<open>emit_then\<close> does for the statements that follow an \<open>emit\<close> in a listener.
\<close>

fun unheard :: "notification \<Rightarrow> client \<Rightarrow> bool" where
  "unheard (N_error err) s = (\<not> errorObserved s)"
| "unheard n s = False"

fun emit :: "notification \<Rightarrow> client \<Rightarrow> client" where
  "emit (N_error err) s =
     (if unheard (N_error err) s then s\<lparr>trace := trace s @ [Uncaught (Unhandled err)]\<rparr>
      else s\<lparr>trace := trace s @ [Notify (N_error err)]\<rparr>)"
| "emit n s = s\<lparr>trace := trace s @ [Notify n]\<rparr>"

definition emit_then :: "notification \<Rightarrow> (client \<Rightarrow> client) \<Rightarrow> client \<Rightarrow> client" where
  "emit_then n rest s = (if unheard n s then emit n s else rest (emit n s))"

definition socket_emit :: "socket_msg \<Rightarrow> client \<Rightarrow> client" where
  "socket_emit m s = s\<lparr>trace := trace s @ [Send m]\<rparr>"

definition debug :: "log \<Rightarrow> client \<Rightarrow> client" where
  "debug l s = s\<lparr>trace := trace s @ [Debug l]\<rparr>"

text \<open>
  Modelled from the spec: what a selection call does to the flags kept by the swarm
  library. \<open>torrent.deselect\<close> over the whole piece range is the spec's
  \<open>handle.deselectAll()\<close> and clears the flag of every file; \<open>file.select()\<close> and
  \<open>file.deselect()\<close> set and clear the flag of that file. The other calls are given
  no effect here: what the library does upon them, such as fetching a file whose blob
  URL was asked for, reaches the client as a \<open>Swarm_update\<close>.
\<close>

definition set_selected :: "bool \<Rightarrow> file_handle \<Rightarrow> file_handle" where
  "set_selected b f = f\<lparr>selected := b\<rparr>"

definition on_files :: "(file_handle list \<Rightarrow> file_handle list) \<Rightarrow> torrent \<Rightarrow> torrent" where
  "on_files g t = t\<lparr>handle := (handle t)\<lparr>files := g (files (handle t))\<rparr>\<rparr>"

fun swarm_effect :: "directive \<Rightarrow> torrent list \<Rightarrow> torrent list" where
  "swarm_effect (Torrent_deselect t a b p) ts =
     (if t < length ts then ts[t := on_files (map (set_selected False)) (ts ! t)] else ts)"
| "swarm_effect (File_select t i) ts =
     (if t < length ts \<and> i < length (files (handle (ts ! t)))
      then ts[t := on_files (\<lambda>fs. fs[i := set_selected True (fs ! i)]) (ts ! t)] else ts)"
| "swarm_effect (File_deselect t i) ts =
     (if t < length ts \<and> i < length (files (handle (ts ! t)))
      then ts[t := on_files (\<lambda>fs. fs[i := set_selected False (fs ! i)]) (ts ! t)] else ts)"
| "swarm_effect d ts = ts"

text \<open>A call on the library: recorded, and the library's flags follow.\<close>

definition request :: "directive \<Rightarrow> client \<Rightarrow> client" where
  "request d s = s\<lparr>torrents := swarm_effect d (torrents s), trace := trace s @ [Do d]\<rparr>"

section \<open>selectFiles\<close>

text \<open>\<open>fileSelections[i]\<close> as a condition: an index past the end reads \<open>undefined\<close>.\<close>

definition chosen :: "bool list \<Rightarrow> nat \<Rightarrow> bool" where
  "chosen fileSelections i = (i < length fileSelections \<and> fileSelections ! i)"

text \<open>The number of files of \<open>client.torrents[0]\<close>, read again at every round of the loop.\<close>

definition file_count :: "client \<Rightarrow> nat" where
  "file_count s = (case torrents s of [] \<Rightarrow> 0 | t # _ \<Rightarrow> length (files (handle t)))"

lemma swarm_effect_length [simp]: "length (swarm_effect d ts) = length ts"
  by (cases d) simp_all

lemma swarm_effect_file_count:
  "length (files (handle (swarm_effect d ts ! k))) = length (files (handle (ts ! k)))"
  by (cases d) (auto simp: on_files_def nth_list_update)

lemma swarm_effect_Nil [simp]: "swarm_effect d [] = []"
  by (cases d) simp_all

lemma trace_request [simp]: "trace (request d s) = trace s @ [Do d]"
  by (simp add: request_def)

lemma torrents_request [simp]: "torrents (request d s) = swarm_effect d (torrents s)"
  by (simp add: request_def)

lemma swarm_effect_eq_Nil [simp]: "swarm_effect d ts = [] \<longleftrightarrow> ts = []"
  using swarm_effect_length [of d ts] by (simp only: flip: length_0_conv)

lemma file_count_nth:
  "file_count s = (if torrents s = [] then 0 else length (files (handle (torrents s ! 0))))"
  by (simp add: file_count_def split: list.split)

lemma file_count_request [simp]: "file_count (request d s) = file_count s"
  by (simp add: file_count_nth swarm_effect_file_count)

text \<open>The \<open>for\<close> loop of \<open>selectFiles\<close>, from index \<open>i\<close> on.\<close>

function select_loop :: "bool list \<Rightarrow> nat \<Rightarrow> client \<Rightarrow> client" where
  "select_loop fileSelections i s =
     (if i < file_count s
      then select_loop fileSelections (i + 1)
             (request (if chosen fileSelections i then File_select 0 i else File_deselect 0 i) s)
      else s)"
  by pat_completeness auto
termination
  by (relation "measure (\<lambda>(v, i, s). file_count s - i)") auto

declare select_loop.simps [simp del]

definition selectFiles :: "bool list \<Rightarrow> client \<Rightarrow> exn + client" where
  "selectFiles fileSelections s =
     (case torrents s of
        [] \<Rightarrow> Inl TypeError
      | torrent # _ \<Rightarrow>
          if length fileSelections \<noteq> length (files (handle torrent)) then
            Inr (debug L_ignored_selection
                  (debug (L_got_length (length fileSelections) (length (files (handle torrent)))) s))
          else
            Inr (debug L_implemented_selection
                  (select_loop fileSelections 0
                    (request (Torrent_deselect 0 0 (int (pieces (handle torrent)) - 1) 0) s))))"

section \<open>The constructor\<close>

text \<open>
  \<open>constructor\<close> takes the two environment variables. The socket listener for
  \<open>addTorrent\<close> and the client's \<open>error\<close> listener are added here once and for good, so
  the step function below serves both events in every state.
\<close>

definition constructor :: "string option \<Rightarrow> string option \<Rightarrow> client" where
  "constructor env_STUN_URL env_TRACKER_URL =
     (let STUN_URL =
            (case env_STUN_URL of
               Some v \<Rightarrow> if truthy_env (Some v) then ''stun:'' @ v @ '':3478''
                         else ''stun:stun.l.google.com:19302''
             | None \<Rightarrow> ''stun:stun.l.google.com:19302'');
          TRACKER_URL =
            (case env_TRACKER_URL of
               Some v \<Rightarrow> if truthy_env (Some v) then ''ws://'' @ v @ '':8000''
                         else ''wss://tracker.btorrent.xyz''
             | None \<Rightarrow> ''wss://tracker.btorrent.xyz'')
      in \<lparr>TRACKER_URLS = [TRACKER_URL],
          iceServers = [STUN_URL],
          fileNames = None,
          torrents = [],
          timers = [],
          nextTimer = 1,
          progressUpdateListeners = 0,
          torrentDoneListeners = [],
          errorObserved = False,
          trace =
            (if truthy_env env_STUN_URL then [] else [Debug L_stun_unset]) @
            [Debug (L_using_stun STUN_URL)] @
            (if truthy_env env_TRACKER_URL then [] else [Debug L_tracker_unset]) @
            [Debug (L_using_tracker TRACKER_URL)]\<rparr>)"

definition TIME_INTERVAL :: nat where
  "TIME_INTERVAL = 500"

section \<open>Torrents\<close>

definition update_torrent :: "nat \<Rightarrow> (torrent \<Rightarrow> torrent) \<Rightarrow> client \<Rightarrow> client" where
  "update_torrent tid f s =
     (if tid < length (torrents s) then s\<lparr>torrents := (torrents s)[tid := f (torrents s ! tid)]\<rparr>
      else s)"

text \<open>
  A torrent as \<open>client.add\<close> or \<open>client.seed\<close> returns it: no file is known before the
  metadata, nothing is transferred, and the client has attached nothing yet.
\<close>

definition new_torrent :: "bool \<Rightarrow> string \<Rightarrow> torrent" where
  "new_torrent by_seed magnet =
     \<lparr>handle = \<lparr>files = [], pieces = 0, progress = 0, downloadSpeed = 0, downloaded = 0,
                uploadSpeed = 0, uploaded = 0, timeRemaining = Infinity, magnetURI = magnet\<rparr>,
      seeded = by_seed,
      errorListeners = 0,
      uploadListeners = 0,
      doneListeners = 0,
      downloadInfoInterval = None,
      progressFiles = None\<rparr>"

definition setFileNames :: "nat \<Rightarrow> client \<Rightarrow> client" where
  "setFileNames tid s = s\<lparr>fileNames := Some (map name (files (handle (torrents s ! tid))))\<rparr>"

definition setTorrentErrorHandlers :: "nat \<Rightarrow> client \<Rightarrow> client" where
  "setTorrentErrorHandlers tid s =
     update_torrent tid (\<lambda>t. t\<lparr>errorListeners := errorListeners t + 1\<rparr>) s"

text \<open>The two listeners that \<open>setTorrentErrorHandlers\<close> adds, run once.\<close>

definition onTorrentError :: "js_error \<Rightarrow> client \<Rightarrow> client" where
  "onTorrentError err s =
     emit_then (N_error err) (emit N_torrentDestroyed) (debug (L_torrent_error err) s)"

definition onTorrentWarning :: "js_error \<Rightarrow> client \<Rightarrow> client" where
  "onTorrentWarning err s = debug (L_torrent_warning err) s"

section \<open>sendFiles\<close>

text \<open>
  \<open>sendFiles\<close> only calls \<open>client.seed\<close>; the rest is the callback \<open>onSeed\<close>, which the
  library calls with the torrent once it is seeding. \<open>formatBytes\<close> is imported from a
  file that is not part of the sources and is a parameter wherever it is used.
\<close>

definition sendFiles :: "string list \<Rightarrow> client \<Rightarrow> client" where
  "sendFiles fs s =
     (let s1 = request (Client_seed fs (TRACKER_URLS s)) s
      in s1\<lparr>torrents := torrents s1 @ [new_torrent True []]\<rparr>)"

definition onSeed :: "nat \<Rightarrow> client \<Rightarrow> client" where
  "onSeed tid s =
     (let s1 = setTorrentErrorHandlers tid s;
          s2 = setFileNames tid s1;
          s3 = emit N_seeding s2;
          s4 = socket_emit (S_fileReady (magnetURI (handle (torrents s3 ! tid)))) s3;
          s5 = s4\<lparr>progressUpdateListeners := progressUpdateListeners s4 + 1\<rparr>;
          s6 = update_torrent tid (\<lambda>t. t\<lparr>uploadListeners := uploadListeners t + 1\<rparr>) s5
      in s6\<lparr>torrentDoneListeners := torrentDoneListeners s6 @ [tid]\<rparr>)"

definition onSocketProgressUpdate :: "json \<Rightarrow> client \<Rightarrow> client" where
  "onSocketProgressUpdate info s = emit (N_progressUpdate info) s"

definition onUpload :: "(real \<Rightarrow> string) \<Rightarrow> nat \<Rightarrow> client \<Rightarrow> client" where
  "onUpload formatBytes tid s =
     (let h = handle (torrents s ! tid)
      in emit (N_upload (formatBytes (uploadSpeed h) @ ''/s'') (formatBytes (uploaded h))) s)"

definition onSocketTorrentDone :: "nat \<Rightarrow> client \<Rightarrow> client" where
  "onSocketTorrentDone tid s = request (Torrent_destroy tid) s"

definition onTorrentDestroyed :: "client \<Rightarrow> client" where
  "onTorrentDestroyed s = emit N_torrentDestroyed (debug L_destroyed_by_server s)"

section \<open>addTorrent\<close>

text \<open>
  \<open>addTorrent\<close> itself calls \<open>client.add\<close> and adds the \<open>metadata\<close> and \<open>ready\<close>
  listeners to the torrent it gets; it does not call \<open>setTorrentErrorHandlers\<close>.
\<close>

definition addTorrent :: "string \<Rightarrow> client \<Rightarrow> client" where
  "addTorrent magnetURI' s =
     (let s1 = request (Client_add magnetURI' (TRACKER_URLS s)) s
      in s1\<lparr>torrents := torrents s1 @ [new_torrent False magnetURI']\<rparr>)"

text \<open>
  \<open>progressFiles[i] = file.progress\<close> for every file: an array shorter than the file
  list grows, a longer one keeps its tail.
\<close>

definition refresh :: "file_handle list \<Rightarrow> real list \<Rightarrow> real list" where
  "refresh fs pf = map fprogress fs @ drop (length fs) pf"

definition onDownload :: "(real \<Rightarrow> string) \<Rightarrow> nat \<Rightarrow> client \<Rightarrow> client" where
  "onDownload formatBytes tid s =
     (let t = torrents s ! tid;
          h = handle t;
          pf0 = (case progressFiles t of
                   None \<Rightarrow> replicate (length (files h)) 0
                 | Some pf \<Rightarrow> pf);
          pf = refresh (files h) pf0;
          s1 = update_torrent tid (\<lambda>t. t\<lparr>progressFiles := Some pf\<rparr>) s
      in emit (N_download (formatBytes (downloadSpeed h) @ ''/s'') (formatBytes (downloaded h))
                 (progress h) pf (timeRemaining h)) s1)"

definition onMetadata :: "nat \<Rightarrow> client \<Rightarrow> client" where
  "onMetadata tid s =
     (let n = length (files (handle (torrents s ! tid)));
          s1 = update_torrent tid (\<lambda>t. t\<lparr>progressFiles := Some (replicate n 0)\<rparr>) s
      in setFileNames tid s1)"

definition sendProgress :: "nat \<Rightarrow> client \<Rightarrow> client" where
  "sendProgress tid s =
     (let t = torrents s ! tid
      in socket_emit (S_progressUpdate (progress (handle t)) (progressFiles t)
                        (timeRemaining (handle t))) s)"

text \<open>The callback given to \<open>file.getBlobURL\<close> for file \<open>i\<close>, named \<open>fname\<close>.\<close>

definition onBlobURL :: "string \<Rightarrow> nat \<Rightarrow> js_error option \<Rightarrow> string option \<Rightarrow> client \<Rightarrow> client" where
  "onBlobURL fname i err url s =
     (if truthy_err err then
        (case err of Some e \<Rightarrow> debug (L_blob_error fname e) s | None \<Rightarrow> s)
      else
        (case url of
           None \<Rightarrow> debug (L_blob_undefined fname) s
         | Some u \<Rightarrow> emit (N_fileDownloadComplete i u) s))"

definition setInterval :: "nat \<Rightarrow> nat \<Rightarrow> client \<Rightarrow> client" where
  "setInterval tid ms s =
     (let k = nextTimer s;
          s1 = request (Set_interval k ms) s
      in s1\<lparr>timers := timers s1 @ [(k, tid)], nextTimer := k + 1\<rparr>)"

definition clearInterval :: "nat option \<Rightarrow> client \<Rightarrow> client" where
  "clearInterval iv s =
     (let s1 = request (Clear_interval iv) s
      in s1\<lparr>timers := filter (\<lambda>(k, t). Some k \<noteq> iv) (timers s1)\<rparr>)"

definition onInterval :: "(real \<Rightarrow> string) \<Rightarrow> nat \<Rightarrow> client \<Rightarrow> client" where
  "onInterval formatBytes tid s = onDownload formatBytes tid (sendProgress tid s)"

definition onDone :: "(real \<Rightarrow> string) \<Rightarrow> nat \<Rightarrow> client \<Rightarrow> client" where
  "onDone formatBytes tid s =
     (let s1 = debug L_download_complete s;
          s2 = socket_emit S_downloadComplete s1;
          s3 = emit N_downloadComplete s2;
          s4 = clearInterval (downloadInfoInterval (torrents s3 ! tid)) s3;
          s5 = onDownload formatBytes tid s4
      in sendProgress tid s5)"

definition onReady :: "nat \<Rightarrow> client \<Rightarrow> client" where
  "onReady tid s =
     (let s1 = debug L_beginning_download s;
          s2 = foldl (\<lambda>s i. request (File_getBlobURL tid i) s) s1
                 [0..<length (files (handle (torrents s1 ! tid)))];
          k = nextTimer s2;
          s3 = setInterval tid TIME_INTERVAL s2;
          s4 = update_torrent tid (\<lambda>t. t\<lparr>downloadInfoInterval := Some k\<rparr>) s3
      in update_torrent tid (\<lambda>t. t\<lparr>doneListeners := doneListeners t + 1\<rparr>) s4)"

section \<open>destroy\<close>

text \<open>\<open>destroy\<close> returns \<open>null\<close>, to be assigned to the variable that held the client.\<close>

text \<open>The listener for the \<open>error\<close> event of the WebTorrent client, added by the constructor.\<close>

definition onClientError :: "js_error \<Rightarrow> client \<Rightarrow> client" where
  "onClientError err s =
     emit_then (N_error err) (emit N_clientDestroyed) (debug (L_client_error err) s)"

definition destroy :: "client \<Rightarrow> client option \<times> client" where
  "destroy s = (None, request Client_destroy s)"

section \<open>Events\<close>

text \<open>
  Everything that can call into the client: the public methods, the messages of the
  socket, the events and callbacks of the library, the ticks of \<open>window\<close>.
  \<open>Swarm_update\<close> is the library changing the fields of a torrent on its own account;
  the client takes no part in it. \<open>Call_on_error\<close> is the observer adding a listener
  for the \<open>error\<close> event with the inherited \<open>on\<close>.
\<close>

datatype event =
    Call_sendFiles "string list"
  | Call_selectFiles "bool list"
  | Call_addTorrent string
  | Call_destroy
  | Call_on_error
  | Sock_addTorrent string
  | Sock_progressUpdate json
  | Sock_torrentDone string
  | Client_error js_error
  | Torrent_cb nat
  | Torrent_metadata nat
  | Torrent_ready nat
  | Torrent_done nat
  | Torrent_error nat js_error
  | Torrent_warning nat js_error
  | Torrent_upload nat real
  | Torrent_destroyed nat
  | Blob_cb nat nat "js_error option" "string option"
  | Tick nat
  | Swarm_update nat swarm_handle

text \<open>
  One event, served by the listeners that are attached at that moment; an event with
  no listener changes nothing. A listener added \<open>n\<close> times runs \<open>n\<close> times, unless the
  first run throws: the exception leaves the library's \<open>emit\<close> and the other runs do
  not happen.
\<close>

fun step :: "(real \<Rightarrow> string) \<Rightarrow> event \<Rightarrow> client \<Rightarrow> client" where
  "step fb (Call_sendFiles fs) s = sendFiles fs s"
| "step fb (Call_selectFiles v) s =
     (case selectFiles v s of
        Inl e \<Rightarrow> s\<lparr>trace := trace s @ [Uncaught e]\<rparr>
      | Inr s' \<Rightarrow> s')"
| "step fb (Call_addTorrent m) s = addTorrent m s"
| "step fb Call_destroy s = snd (destroy s)"
| "step fb Call_on_error s = s\<lparr>errorObserved := True\<rparr>"
| "step fb (Sock_addTorrent m) s = addTorrent m s"
| "step fb (Sock_progressUpdate info) s =
     (onSocketProgressUpdate info ^^ progressUpdateListeners s) s"
| "step fb (Sock_torrentDone m) s =
     foldl (\<lambda>s tid. onSocketTorrentDone tid s) s (torrentDoneListeners s)"
| "step fb (Client_error err) s = onClientError err s"
| "step fb (Torrent_cb tid) s =
     (if tid < length (torrents s) then
        if seeded (torrents s ! tid) then onSeed tid s else emit N_downloading s
      else s)"
| "step fb (Torrent_metadata tid) s =
     (if tid < length (torrents s) \<and> \<not> seeded (torrents s ! tid) then onMetadata tid s else s)"
| "step fb (Torrent_ready tid) s =
     (if tid < length (torrents s) \<and> \<not> seeded (torrents s ! tid) then onReady tid s else s)"
| "step fb (Torrent_done tid) s =
     (if tid < length (torrents s) then (onDone fb tid ^^ doneListeners (torrents s ! tid)) s
      else s)"
| "step fb (Torrent_error tid err) s =
     (if tid < length (torrents s) then
        if unheard (N_error err) s
        then (onTorrentError err ^^ min 1 (errorListeners (torrents s ! tid))) s
        else (onTorrentError err ^^ errorListeners (torrents s ! tid)) s
      else s)"
| "step fb (Torrent_warning tid err) s =
     (if tid < length (torrents s) then (onTorrentWarning err ^^ errorListeners (torrents s ! tid)) s
      else s)"
| "step fb (Torrent_upload tid bytes) s =
     (if tid < length (torrents s) then (onUpload fb tid ^^ uploadListeners (torrents s ! tid)) s
      else s)"
| "step fb (Torrent_destroyed tid) s =
     (if tid \<in> set (torrentDoneListeners s) then onTorrentDestroyed s else s)"
| "step fb (Blob_cb tid i err url) s =
     (if tid < length (torrents s) \<and> 0 < doneListeners (torrents s ! tid)
         \<and> i < length (files (handle (torrents s ! tid)))
      then onBlobURL (name (files (handle (torrents s ! tid)) ! i)) i err url s
      else s)"
| "step fb (Tick k) s =
     (case map_of (timers s) k of
        None \<Rightarrow> s
      | Some tid \<Rightarrow> onInterval fb tid s)"
| "step fb (Swarm_update tid h) s = update_torrent tid (\<lambda>t. t\<lparr>handle := h\<rparr>) s"

definition run :: "(real \<Rightarrow> string) \<Rightarrow> event list \<Rightarrow> client \<Rightarrow> client" where
  "run fb evs s = foldl (\<lambda>s e. step fb e s) s evs"

text \<open>A stand-in for \<open>formatBytes\<close> in concrete runs: it prints nothing of the number.\<close>

definition format_plain :: "real \<Rightarrow> string" where
  "format_plain x = ''#''"

section \<open>A receiving session used in the concrete runs\<close>

text \<open>
  Two files, as the library reports them once the metadata is there, and the client
  after the signaling link asked for that torrent and the metadata arrived.
\<close>

definition two_files :: swarm_handle where
  "two_files =
     \<lparr>files = [\<lparr>name = ''a.txt'', fprogress = 0, selected = True\<rparr>,
               \<lparr>name = ''b.bin'', fprogress = 0, selected = True\<rparr>],
      pieces = 8, progress = 0, downloadSpeed = 0, downloaded = 0,
      uploadSpeed = 0, uploaded = 0, timeRemaining = Infinity, magnetURI = ''magnet:demo''\<rparr>"

definition negotiating :: client where
  "negotiating =
     run format_plain
       [Sock_addTorrent ''magnet:demo'', Torrent_cb 0, Swarm_update 0 two_files, Torrent_metadata 0]
       (constructor None None)"

definition negotiating_torrent :: torrent where
  "negotiating_torrent =
     \<lparr>handle = two_files, seeded = False, errorListeners = 0, uploadListeners = 0,
      doneListeners = 0, downloadInfoInterval = None, progressFiles = Some [0, 0]\<rparr>"

lemma torrents_negotiating: "torrents negotiating = [negotiating_torrent]"
  by code_simp

lemma files_negotiating_torrent: "length (files (handle negotiating_torrent)) = 2"
  by (simp add: negotiating_torrent_def two_files_def)

section \<open>Properties of selectFiles\<close>

lemma select_loop_trace:
  "trace (select_loop v i s) =
     trace s @ map (\<lambda>k. Do (if chosen v k then File_select 0 k else File_deselect 0 k))
                 [i..<file_count s]"
proof (induction v i s rule: select_loop.induct)
  case (1 v i s)
  show ?case
  proof (cases "i < file_count s")
    case True
    then show ?thesis
      using 1 [OF True]
      by (subst select_loop.simps) (simp add: upt_conv_Cons)
  next
    case False
    then show ?thesis by (subst select_loop.simps) simp
  qed
qed

lemma torrents_request_file:
  "torrents s = t # r \<Longrightarrow> i < length (files (handle t)) \<Longrightarrow>
   torrents (request (if chosen v i then File_select 0 i else File_deselect 0 i) s) =
     on_files (\<lambda>fs. fs[i := set_selected (chosen v i) (fs ! i)]) t # r"
  by simp

lemma select_loop_torrents:
  "torrents s = t # r \<Longrightarrow>
   torrents (select_loop v i s) =
     on_files (\<lambda>fs. take i fs @ map (\<lambda>k. set_selected (chosen v k) (fs ! k)) [i..<length fs]) t # r"
proof (induction v i s arbitrary: t rule: select_loop.induct)
  case (1 v i s)
  let ?d = "if chosen v i then File_select 0 i else File_deselect 0 i"
  show ?case
  proof (cases "i < file_count s")
    case True
    with 1(2) have lt: "i < length (files (handle t))" by (simp add: file_count_def)
    let ?t1 = "on_files (\<lambda>fs. fs[i := set_selected (chosen v i) (fs ! i)]) t"
    have t1: "torrents (request ?d s) = ?t1 # r"
      using 1(2) lt by (rule torrents_request_file)
    have "torrents (select_loop v (i + 1) (request ?d s)) =
      on_files (\<lambda>fs. take (i + 1) fs @ map (\<lambda>k. set_selected (chosen v k) (fs ! k)) [i + 1..<length fs]) ?t1 # r"
      using 1(1) [OF True t1] .
    then show ?thesis
      using True lt
      by (subst select_loop.simps)
         (simp add: on_files_def take_Suc_conv_app_nth upt_conv_Cons)
  next
    case False
    with 1(2) have "length (files (handle t)) \<le> i" by (simp add: file_count_def)
    then show ?thesis
      using False 1(2) by (subst select_loop.simps) (simp add: on_files_def)
  qed
qed

text \<open>The files of the first torrent after a selection of the right length.\<close>

definition mark :: "bool list \<Rightarrow> file_handle list \<Rightarrow> file_handle list" where
  "mark v fs = map (\<lambda>k. set_selected (chosen v k) (fs ! k)) [0..<length fs]"

lemma mark_clear: "mark v (map (set_selected False) fs) = mark v fs"
  by (simp add: mark_def set_selected_def)

lemma mark_mark: "mark v (mark v fs) = mark v fs"
  by (simp add: mark_def set_selected_def)

lemma length_mark [simp]: "length (mark v fs) = length fs"
  by (simp add: mark_def)

lemma selected_mark: "length v = length fs \<Longrightarrow> map selected (mark v fs) = v"
  by (rule nth_equalityI) (simp_all add: mark_def set_selected_def chosen_def)

lemma selectFiles_valid:
  assumes "torrents s = t # ts" and "length v = length (files (handle t))"
  shows "\<exists>s'. selectFiles v s = Inr s'
    \<and> torrents s' = on_files (mark v) t # ts
    \<and> trace s' = trace s @ Do (Torrent_deselect 0 0 (int (pieces (handle t)) - 1) 0)
          # map (\<lambda>i. Do (if v ! i then File_select 0 i else File_deselect 0 i)) [0..<length v]
          @ [Debug L_implemented_selection]"
proof -
  let ?s0 = "request (Torrent_deselect 0 0 (int (pieces (handle t)) - 1) 0) s"
  let ?t0 = "on_files (map (set_selected False)) t"
  have t0: "torrents ?s0 = ?t0 # ts" using assms(1) by simp
  have fc: "file_count ?s0 = length v" using assms by (simp add: file_count_def on_files_def)
  have tr: "trace (select_loop v 0 ?s0) = trace s @ Do (Torrent_deselect 0 0 (int (pieces (handle t)) - 1) 0)
          # map (\<lambda>i. Do (if v ! i then File_select 0 i else File_deselect 0 i)) [0..<length v]"
    by (simp add: select_loop_trace fc chosen_def del: file_count_request)
  have "torrents (select_loop v 0 ?s0) =
     on_files (\<lambda>fs. take 0 fs @ map (\<lambda>k. set_selected (chosen v k) (fs ! k)) [0..<length fs]) ?t0 # ts"
    using t0 by (rule select_loop_torrents)
  also have "\<dots> = on_files (mark v) t # ts"
    using mark_clear [of v "files (handle t)"] by (simp add: on_files_def mark_def)
  finally have to: "torrents (select_loop v 0 ?s0) = on_files (mark v) t # ts" .
  show ?thesis
    using assms tr to by (simp add: selectFiles_def debug_def)
qed

text \<open>
  C10: \<open>selectFiles\<close> presupposes a torrent. When the client's torrent list is empty,
  \<open>client.torrents[0]\<close> is \<open>undefined\<close> and reading its \<open>files\<close> throws a TypeError,
  whatever the vector is: the call neither returns normally nor logs a rejection.
\<close>

theorem selectFiles_no_torrent:
  "torrents s = [] \<Longrightarrow> selectFiles fileSelections s = Inl TypeError"
  by (simp add: selectFiles_def)

theorem selectFiles_no_torrent_witness:
  "torrents (constructor None None) = []
   \<and> selectFiles [True, False] (constructor None None) = Inl TypeError"
proof -
  have h: "torrents (constructor None None) = []"
    by (simp add: constructor_def Let_def)
  from h selectFiles_no_torrent [OF h, of "[True, False]"] show ?thesis by simp
qed

text \<open>
  C5: with a torrent present and a vector whose length differs from the number of files,
  \<open>selectFiles\<close> returns the state it was given but for two log lines: no call is made on
  the torrent or on a file, so no file's \<open>selected\<close> flag and no other field of any
  torrent changes.
\<close>

theorem selectFiles_length_mismatch:
  assumes "torrents s = t # ts" and "length fileSelections \<noteq> length (files (handle t))"
  shows "selectFiles fileSelections s =
     Inr (s\<lparr>trace := trace s @ [Debug (L_got_length (length fileSelections) (length (files (handle t)))),
                                Debug L_ignored_selection]\<rparr>)"
  using assms by (simp add: selectFiles_def debug_def)

theorem selectFiles_length_mismatch_witness:
  "torrents negotiating = negotiating_torrent # []
   \<and> length [True] \<noteq> length (files (handle negotiating_torrent))
   \<and> selectFiles [True] negotiating =
       Inr (negotiating\<lparr>trace := trace negotiating @
              [Debug (L_got_length 1 2), Debug L_ignored_selection]\<rparr>)"
proof -
  have h1: "torrents negotiating = negotiating_torrent # []"
    by (rule torrents_negotiating)
  have h2: "length [True] \<noteq> length (files (handle negotiating_torrent))"
    by (simp add: files_negotiating_torrent)
  from h1 h2 selectFiles_length_mismatch [OF h1 h2] show ?thesis
    by (simp add: files_negotiating_torrent)
qed

text \<open>
  C6: with a torrent present and a vector of the right length, \<open>selectFiles\<close> first calls
  \<open>deselect\<close> on the torrent over the whole piece range, \<open>0\<close> to \<open>pieces.length - 1\<close>,
  which leaves no file selected, and then, for each index in order, \<open>select()\<close> on the
  file when the vector holds true there and \<open>deselect()\<close> when it holds false.
\<close>

theorem selectFiles_directives:
  assumes "torrents s = t # ts" and "length fileSelections = length (files (handle t))"
  shows "\<exists>s'. selectFiles fileSelections s = Inr s'
    \<and> trace s' = trace s @ Do (Torrent_deselect 0 0 (int (pieces (handle t)) - 1) 0)
          # map (\<lambda>i. Do (if fileSelections ! i then File_select 0 i else File_deselect 0 i))
              [0..<length fileSelections]
          @ [Debug L_implemented_selection]
    \<and> map selected (files (handle (hd (swarm_effect
           (Torrent_deselect 0 0 (int (pieces (handle t)) - 1) 0) (torrents s)))))
        = replicate (length fileSelections) False"
proof -
  have "map selected (files (handle (hd (swarm_effect
           (Torrent_deselect 0 0 (int (pieces (handle t)) - 1) 0) (torrents s)))))
        = replicate (length fileSelections) False"
    using assms by (simp add: on_files_def set_selected_def map_replicate_const comp_def)
  with selectFiles_valid [OF assms] show ?thesis by blast
qed

theorem selectFiles_directives_witness:
  "torrents negotiating = negotiating_torrent # []
   \<and> length [True, False] = length (files (handle negotiating_torrent))
   \<and> (\<exists>s'. selectFiles [True, False] negotiating = Inr s'
        \<and> trace s' = trace negotiating @
             [Do (Torrent_deselect 0 0 7 0), Do (File_select 0 0), Do (File_deselect 0 1),
              Debug L_implemented_selection])"
proof -
  have h1: "torrents negotiating = negotiating_torrent # []"
    by (rule torrents_negotiating)
  have h2: "length [True, False] = length (files (handle negotiating_torrent))"
    by (simp add: files_negotiating_torrent)
  have "[0..<2] = [0, Suc 0]"
    by (simp add: upt_conv_Cons)
  with h1 h2 selectFiles_directives [OF h1 h2] show ?thesis
    by (auto simp: negotiating_torrent_def two_files_def)
qed

text \<open>
  C7: with a torrent present and a vector of the right length, a second
  \<open>selectFiles\<close> with the same vector leaves every torrent, and so the \<open>selected\<close> flag
  of every file, as the first call left it; after either call the flags are the vector.
\<close>

theorem selectFiles_idempotent:
  assumes "torrents s = t # ts" and "length fileSelections = length (files (handle t))"
  shows "\<exists>s1 s2. selectFiles fileSelections s = Inr s1 \<and> selectFiles fileSelections s1 = Inr s2
    \<and> torrents s2 = torrents s1
    \<and> map selected (files (handle (hd (torrents s1)))) = fileSelections"
proof -
  obtain s1 where s1: "selectFiles fileSelections s = Inr s1"
    and t1: "torrents s1 = on_files (mark fileSelections) t # ts"
    using selectFiles_valid [OF assms] by blast
  have len: "length fileSelections = length (files (handle (on_files (mark fileSelections) t)))"
    using assms(2) by (simp add: on_files_def)
  obtain s2 where s2: "selectFiles fileSelections s1 = Inr s2"
    and t2: "torrents s2 = on_files (mark fileSelections) (on_files (mark fileSelections) t) # ts"
    using selectFiles_valid [OF t1 len] by blast
  have "torrents s2 = torrents s1"
    using t1 t2 by (simp add: on_files_def mark_mark)
  moreover have "map selected (files (handle (hd (torrents s1)))) = fileSelections"
    using t1 assms(2) by (simp add: on_files_def selected_mark)
  ultimately show ?thesis using s1 s2 by blast
qed

theorem selectFiles_idempotent_witness:
  "torrents negotiating = negotiating_torrent # []
   \<and> length [True, False] = length (files (handle negotiating_torrent))
   \<and> (\<exists>s1 s2. selectFiles [True, False] negotiating = Inr s1
        \<and> selectFiles [True, False] s1 = Inr s2
        \<and> torrents s2 = torrents s1
        \<and> map selected (files (handle (hd (torrents s1)))) = [True, False])"
proof -
  have h1: "torrents negotiating = negotiating_torrent # []"
    by (rule torrents_negotiating)
  have h2: "length [True, False] = length (files (handle negotiating_torrent))"
    by (simp add: files_negotiating_torrent)
  from h1 h2 selectFiles_idempotent [OF h1 h2] show ?thesis
    by simp
qed

section \<open>The relay of progress updates\<close>

lemma funpow_keeps: "(\<And>x. g (f x) = g x) \<Longrightarrow> g ((f ^^ n) x) = g x"
  by (induction n) simp_all

lemma foldl_keeps: "(\<And>x a. g (f x a) = g x) \<Longrightarrow> g (foldl f x as) = g x"
  by (induction as arbitrary: x) simp_all

lemma select_loop_listeners:
  "progressUpdateListeners (select_loop v i s) = progressUpdateListeners s"
proof (induction v i s rule: select_loop.induct)
  case (1 v i s)
  show ?case
  proof (cases "i < file_count s")
    case True
    then show ?thesis
      using 1 [OF True] by (subst select_loop.simps) (simp add: request_def)
  next
    case False
    then show ?thesis by (subst select_loop.simps) simp
  qed
qed

lemma selectFiles_listeners:
  "selectFiles v s = Inr s' \<Longrightarrow> progressUpdateListeners s' = progressUpdateListeners s"
  by (auto simp: selectFiles_def debug_def select_loop_listeners request_def
           split: list.splits if_splits)

lemma onDownload_listeners:
  "progressUpdateListeners (onDownload fb tid s) = progressUpdateListeners s"
  by (simp add: onDownload_def Let_def update_torrent_def)

lemma onDone_listeners:
  "progressUpdateListeners (onDone fb tid s) = progressUpdateListeners s"
  by (simp add: onDone_def Let_def sendProgress_def socket_emit_def onDownload_listeners
        clearInterval_def request_def debug_def)

lemma onReady_listeners:
  "progressUpdateListeners (onReady tid s) = progressUpdateListeners s"
proof -
  have "\<And>x. progressUpdateListeners (foldl (\<lambda>s i. request (File_getBlobURL tid i) s) x is)
      = progressUpdateListeners x" for "is"
    by (rule foldl_keeps) (simp add: request_def)
  then show ?thesis
    by (simp add: onReady_def Let_def update_torrent_def setInterval_def request_def debug_def)
qed

lemma step_listeners:
  "progressUpdateListeners s \<le> progressUpdateListeners (step fb e s)"
proof (cases e)
  case (Call_selectFiles v)
  then show ?thesis
    by (auto simp: selectFiles_listeners split: sum.splits)
next
  case (Sock_progressUpdate info)
  have "progressUpdateListeners ((onSocketProgressUpdate info ^^ n) s) = progressUpdateListeners s" for n
    by (rule funpow_keeps) (simp add: onSocketProgressUpdate_def )
  with Sock_progressUpdate show ?thesis by simp
next
  case (Sock_torrentDone m)
  have "progressUpdateListeners (foldl (\<lambda>s tid. onSocketTorrentDone tid s) s ts) = progressUpdateListeners s" for ts
    by (rule foldl_keeps) (simp add: onSocketTorrentDone_def request_def)
  with Sock_torrentDone show ?thesis by simp
next
  case (Torrent_done tid)
  have "progressUpdateListeners ((onDone fb tid ^^ n) s) = progressUpdateListeners s" for n
    by (rule funpow_keeps) (rule onDone_listeners)
  with Torrent_done show ?thesis by simp
next
  case (Torrent_error tid err)
  have "progressUpdateListeners ((onTorrentError err ^^ n) s) = progressUpdateListeners s" for n
    by (rule funpow_keeps) (simp add: onTorrentError_def emit_then_def debug_def)
  with Torrent_error show ?thesis by simp
next
  case (Torrent_warning tid err)
  have "progressUpdateListeners ((onTorrentWarning err ^^ n) s) = progressUpdateListeners s" for n
    by (rule funpow_keeps) (simp add: onTorrentWarning_def debug_def)
  with Torrent_warning show ?thesis by simp
next
  case (Torrent_upload tid b)
  have "progressUpdateListeners ((onUpload fb tid ^^ n) s) = progressUpdateListeners s" for n
    by (rule funpow_keeps) (simp add: onUpload_def Let_def )
  with Torrent_upload show ?thesis by simp
next
  case (Torrent_ready tid)
  then show ?thesis by (simp add: onReady_listeners)
next
  case (Tick k)
  then show ?thesis
    by (simp add: onInterval_def onDownload_listeners sendProgress_def socket_emit_def Let_def
             split: option.splits)
qed (simp_all add: sendFiles_def addTorrent_def destroy_def request_def debug_def
       onClientError_def emit_then_def
       onSeed_def Let_def update_torrent_def setTorrentErrorHandlers_def setFileNames_def
       socket_emit_def onMetadata_def onTorrentDestroyed_def onBlobURL_def
       split: option.splits)

lemma run_listeners:
  "progressUpdateListeners s \<le> progressUpdateListeners (run fb evs s)"
proof (induction evs arbitrary: s)
  case Nil
  then show ?case by (simp add: run_def)
next
  case (Cons e evs)
  have "progressUpdateListeners s \<le> progressUpdateListeners (step fb e s)"
    by (rule step_listeners)
  also have "\<dots> \<le> progressUpdateListeners (run fb evs (step fb e s))"
    by (rule Cons.IH)
  finally show ?case by (simp add: run_def)
qed

lemma onSeed_listeners:
  "progressUpdateListeners (onSeed tid s) = progressUpdateListeners s + 1"
  by (simp add: onSeed_def Let_def update_torrent_def setTorrentErrorHandlers_def
        setFileNames_def socket_emit_def)

lemma relay_all:
  "(onSocketProgressUpdate info ^^ n) s =
     s\<lparr>trace := trace s @ replicate n (Notify (N_progressUpdate info))\<rparr>"
proof (induction n)
  case 0
  then show ?case by simp
next
  case (Suc n)
  then show ?case
    by (simp add: onSocketProgressUpdate_def replicate_append_same)
qed

definition seeding :: client where
  "seeding = run format_plain [Call_sendFiles [''a.txt'', ''b.bin''], Swarm_update 0 two_files]
     (constructor None None)"

lemma torrents_seeding:
  "torrents seeding =
     [\<lparr>handle = two_files, seeded = True, errorListeners = 0, uploadListeners = 0,
       doneListeners = 0, downloadInfoInterval = None, progressFiles = None\<rparr>]"
  by code_simp

text \<open>
  C8: in the sender role, that is once the callback of \<open>client.seed\<close> has run for a
  torrent made by \<open>sendFiles\<close>, and whatever happens afterwards, every \<open>progressUpdate\<close>
  message that arrives on the socket is emitted to the local observer as a
  \<open>progressUpdate\<close> event carrying the very payload received, once per seed callback
  that has run, and nothing else happens.
\<close>

theorem progressUpdate_relayed:
  assumes "tid < length (torrents s)" and "seeded (torrents s ! tid)"
    and "s' = run fb evs (step fb (Torrent_cb tid) s)"
  shows "0 < progressUpdateListeners s'
    \<and> step fb (Sock_progressUpdate info) s' =
        s'\<lparr>trace := trace s' @
              replicate (progressUpdateListeners s') (Notify (N_progressUpdate info))\<rparr>"
proof -
  have "step fb (Torrent_cb tid) s = onSeed tid s"
    using assms(1,2) by simp
  then have "0 < progressUpdateListeners (step fb (Torrent_cb tid) s)"
    by (simp add: onSeed_listeners)
  also have "\<dots> \<le> progressUpdateListeners s'"
    unfolding assms(3) by (rule run_listeners)
  finally have "0 < progressUpdateListeners s'" .
  then show ?thesis by (simp add: relay_all)
qed

theorem progressUpdate_relayed_witness:
  "0 < length (torrents seeding) \<and> seeded (torrents seeding ! 0)
   \<and> trace (step format_plain (Sock_progressUpdate (JObj [(''progress'', JNum 1)]))
        (run format_plain [Torrent_upload 0 16384] (step format_plain (Torrent_cb 0) seeding))) =
      trace (run format_plain [Torrent_upload 0 16384] (step format_plain (Torrent_cb 0) seeding))
        @ [Notify (N_progressUpdate (JObj [(''progress'', JNum 1)]))]"
proof -
  define s' where
    "s' = run format_plain [Torrent_upload 0 16384] (step format_plain (Torrent_cb 0) seeding)"
  have h1: "0 < length (torrents seeding)" by (simp add: torrents_seeding)
  have h2: "seeded (torrents seeding ! 0)" by (simp add: torrents_seeding)
  have n: "progressUpdateListeners s' = Suc 0"
    unfolding s'_def by code_simp
  have r: "step format_plain (Sock_progressUpdate (JObj [(''progress'', JNum 1)])) s' =
      s'\<lparr>trace := trace s' @ replicate (progressUpdateListeners s')
          (Notify (N_progressUpdate (JObj [(''progress'', JNum 1)])))\<rparr>"
    using progressUpdate_relayed [OF h1 h2 s'_def] by blast
  have "trace (step format_plain (Sock_progressUpdate (JObj [(''progress'', JNum 1)])) s') =
      trace s' @ [Notify (N_progressUpdate (JObj [(''progress'', JNum 1)]))]"
    by (subst r) (simp add: n)
  then show ?thesis using h1 h2 unfolding s'_def by blast
qed

section \<open>Materializing the files\<close>

text \<open>
  The notifications within a trace, and one outcome of \<open>getBlobURL\<close> (file index,
  \<open>err\<close>, \<open>url\<close>): it is a failure when \<open>err\<close> is truthy or \<open>url\<close> is undefined.
\<close>

fun notifications :: "effect list \<Rightarrow> notification list" where
  "notifications [] = []"
| "notifications (Notify n # es) = n # notifications es"
| "notifications (e # es) = notifications es"

fun logs :: "effect list \<Rightarrow> log list" where
  "logs [] = []"
| "logs (Debug l # es) = l # logs es"
| "logs (e # es) = logs es"

fun failed :: "nat \<times> js_error option \<times> string option \<Rightarrow> bool" where
  "failed (i, err, url) = (truthy_err err \<or> url = None)"

fun blob_event :: "nat \<Rightarrow> nat \<times> js_error option \<times> string option \<Rightarrow> event" where
  "blob_event tid (i, err, url) = Blob_cb tid i err url"

fun completions :: "(nat \<times> js_error option \<times> string option) list \<Rightarrow> notification list" where
  "completions [] = []"
| "completions ((i, err, Some u) # cs) =
     (if truthy_err err then completions cs else N_fileDownloadComplete i u # completions cs)"
| "completions ((i, err, None) # cs) = completions cs"

lemma notifications_append [simp]:
  "notifications (xs @ ys) = notifications xs @ notifications ys"
  by (induction xs rule: notifications.induct) simp_all

lemma logs_append [simp]: "logs (xs @ ys) = logs xs @ logs ys"
  by (induction xs rule: logs.induct) simp_all

lemma onBlobURL_outcome:
  "\<exists>e. onBlobURL fname i err url s = s\<lparr>trace := trace s @ [e]\<rparr>
     \<and> notifications [e] = completions [(i, err, url)]
     \<and> length (logs [e]) = length (filter failed [(i, err, url)])
     \<and> (\<forall>d. e \<noteq> Do d) \<and> (\<forall>m. e \<noteq> Send m) \<and> (\<forall>x. e \<noteq> Uncaught x)"
proof (cases "truthy_err err")
  case True
  then obtain e' where "err = Some e'" by (cases err) auto
  with True show ?thesis
    by (cases url) (auto simp: onBlobURL_def debug_def)
next
  case False
  then show ?thesis
    by (cases url) (auto simp: onBlobURL_def debug_def )
qed

lemma blob_callbacks:
  assumes "tid < length (torrents s)" and "0 < doneListeners (torrents s ! tid)"
    and "list_all (\<lambda>c. fst c < length (files (handle (torrents s ! tid)))) cs"
  shows "\<exists>es. run fb (map (blob_event tid) cs) s = s\<lparr>trace := trace s @ es\<rparr>
     \<and> notifications es = completions cs
     \<and> length (logs es) = length (filter failed cs)
     \<and> length es = length cs"
  using assms
proof (induction cs arbitrary: s)
  case Nil
  then show ?case by (simp add: run_def)
next
  case (Cons c cs)
  obtain i err url where c: "c = (i, err, url)" by (cases c) auto
  let ?fname = "name (files (handle (torrents s ! tid)) ! i)"
  from Cons.prems c have i: "i < length (files (handle (torrents s ! tid)))" by simp
  obtain e where e: "onBlobURL ?fname i err url s = s\<lparr>trace := trace s @ [e]\<rparr>"
    and ne: "notifications [e] = completions [(i, err, url)]"
    and le: "length (logs [e]) = length (filter failed [(i, err, url)])"
    using onBlobURL_outcome by blast
  let ?s1 = "s\<lparr>trace := trace s @ [e]\<rparr>"
  have st: "step fb (blob_event tid c) s = ?s1"
    using Cons.prems i c e by simp
  have "\<exists>es. run fb (map (blob_event tid) cs) ?s1 = ?s1\<lparr>trace := trace ?s1 @ es\<rparr>
     \<and> notifications es = completions cs
     \<and> length (logs es) = length (filter failed cs)
     \<and> length es = length cs"
    using Cons.prems by (intro Cons.IH) simp_all
  then obtain es where r: "run fb (map (blob_event tid) cs) ?s1 = ?s1\<lparr>trace := trace ?s1 @ es\<rparr>"
    and n: "notifications es = completions cs"
    and l: "length (logs es) = length (filter failed cs)"
    and k: "length es = length cs"
    by blast
  have "run fb (map (blob_event tid) (c # cs)) s = s\<lparr>trace := trace s @ (e # es)\<rparr>"
    using st r by (simp add: run_def)
  moreover have "notifications (e # es) = completions (c # cs)"
    using ne n c notifications_append [of "[e]" es]
    by (cases url; cases "truthy_err err") simp_all
  moreover have "length (logs (e # es)) = length (filter failed (c # cs))"
    using le l c logs_append [of "[e]" es] by simp
  moreover have "length (e # es) = length (c # cs)" using k by simp
  ultimately show ?case by blast
qed


lemma completions_no_error: "N_error x \<notin> set (completions cs)"
  by (induction cs rule: completions.induct) simp_all

definition transferring :: client where
  "transferring = step format_plain (Torrent_ready 0) negotiating"

definition transferring_torrent :: torrent where
  "transferring_torrent =
     \<lparr>handle = two_files, seeded = False, errorListeners = 0, uploadListeners = 0,
      doneListeners = 1, downloadInfoInterval = Some 1, progressFiles = Some [0, 0]\<rparr>"

lemma torrents_transferring: "torrents transferring = [transferring_torrent]"
  by code_simp

lemma timers_transferring: "timers transferring = [(1, 0)]"
  by code_simp

text \<open>
  C9: in a downloading session whose \<open>ready\<close> event has come, let the callbacks of
  \<open>getBlobURL\<close> arrive for any files in any order. The client is then as before but for
  one trace entry per callback: a callback with a truthy \<open>err\<close> or an undefined \<open>url\<close>
  leaves a log line and nothing else, no \<open>error\<close> event is emitted, and the events
  emitted are exactly one \<open>fileDownloadComplete\<close>, with its index and its url, for each
  callback that brought a url.
\<close>

theorem blob_failures_only_logged:
  assumes "tid < length (torrents s)" and "0 < doneListeners (torrents s ! tid)"
    and "list_all (\<lambda>c. fst c < length (files (handle (torrents s ! tid)))) cs"
  shows "\<exists>es. run fb (map (blob_event tid) cs) s = s\<lparr>trace := trace s @ es\<rparr>
     \<and> notifications es = completions cs
     \<and> (\<forall>x. N_error x \<notin> set (notifications es))
     \<and> length (logs es) = length (filter failed cs)
     \<and> length es = length cs"
proof -
  obtain es where "run fb (map (blob_event tid) cs) s = s\<lparr>trace := trace s @ es\<rparr>"
    and n: "notifications es = completions cs"
    and "length (logs es) = length (filter failed cs)"
    and "length es = length cs"
    using blob_callbacks [OF assms] by blast
  moreover have "\<forall>x. N_error x \<notin> set (notifications es)"
    by (simp add: n completions_no_error)
  ultimately show ?thesis by blast
qed

theorem blob_failures_only_logged_witness:
  "0 < length (torrents transferring) \<and> 0 < doneListeners (torrents transferring ! 0)
   \<and> list_all (\<lambda>c. fst c < length (files (handle (torrents transferring ! 0))))
        [(0, None, Some ''blob:a''), (1, Some (ErrorObj ''io''), None)]
   \<and> (\<exists>es. run format_plain
          [Blob_cb 0 0 None (Some ''blob:a''), Blob_cb 0 1 (Some (ErrorObj ''io'')) None]
          transferring = transferring\<lparr>trace := trace transferring @ es\<rparr>
        \<and> notifications es = [N_fileDownloadComplete 0 ''blob:a'']
        \<and> length (logs es) = 1 \<and> length es = 2)"
proof -
  let ?cs = "[(0::nat, None, Some ''blob:a''), (1, Some (ErrorObj ''io''), None)]"
  have h1: "0 < length (torrents transferring)"
    by (simp add: torrents_transferring)
  have h2: "0 < doneListeners (torrents transferring ! 0)"
    by (simp add: torrents_transferring transferring_torrent_def)
  have h3: "list_all (\<lambda>c. fst c < length (files (handle (torrents transferring ! 0)))) ?cs"
    by (simp add: torrents_transferring transferring_torrent_def two_files_def)
  from blob_failures_only_logged [OF h1 h2 h3, of format_plain]
  obtain es where "run format_plain (map (blob_event 0) ?cs) transferring
        = transferring\<lparr>trace := trace transferring @ es\<rparr>"
    and "notifications es = completions ?cs"
    and "length (logs es) = length (filter failed ?cs)"
    and "length es = length ?cs"
    by blast
  then have "run format_plain
          [Blob_cb 0 0 None (Some ''blob:a''), Blob_cb 0 1 (Some (ErrorObj ''io'')) None]
          transferring = transferring\<lparr>trace := trace transferring @ es\<rparr>
        \<and> notifications es = [N_fileDownloadComplete 0 ''blob:a'']
        \<and> length (logs es) = 1 \<and> length es = 2"
    by simp
  with h1 h2 h3 show ?thesis by blast
qed

section \<open>The end of a download\<close>









section \<open>A fatal error while downloading\<close>

text \<open>
  C2: a fatal error of a downloading torrent should be surfaced once, as an \<open>error\<close>
  event and a destroyed event, and no snapshot should follow it. The code does otherwise.
  \<open>addTorrent\<close> never calls \<open>setTorrentErrorHandlers\<close>, which \<open>sendFiles\<close> does, so the
  torrent has no \<open>error\<close> listener of the client's and its error event changes nothing:
  neither \<open>error\<close> nor \<open>torrentDestroyed\<close> is emitted. Nothing clears the interval
  either, so the next tick sends a \<open>progressUpdate\<close> and emits a \<open>download\<close> event. The
  same holds when the library reports the error on the client instead: there the
  client's listener emits \<open>error\<close> and \<open>clientDestroyed\<close> if the observer listens for
  \<open>error\<close>, and throws the error if not, and the tick publishes in both cases.
\<close>

theorem download_error_unhandled:
  "errorListeners (torrents transferring ! 0) = 0
   \<and> step format_plain (Torrent_error 0 (ErrorObj ''boom'')) transferring = transferring
   \<and> trace (run format_plain [Torrent_error 0 (ErrorObj ''boom''), Tick 1] transferring) =
       trace transferring @
         [Send (S_progressUpdate 0 (Some [0, 0]) Infinity),
          Notify (N_download ''#/s'' ''#'' 0 [0, 0] Infinity)]
   \<and> trace (run format_plain
         [Call_on_error, Torrent_error 0 (ErrorObj ''boom''), Client_error (ErrorObj ''boom''),
          Tick 1]
         transferring) =
       trace transferring @
         [Debug (L_client_error (ErrorObj ''boom'')), Notify (N_error (ErrorObj ''boom'')),
          Notify N_clientDestroyed,
          Send (S_progressUpdate 0 (Some [0, 0]) Infinity),
          Notify (N_download ''#/s'' ''#'' 0 [0, 0] Infinity)]
   \<and> trace (run format_plain
         [Torrent_error 0 (ErrorObj ''boom''), Client_error (ErrorObj ''boom''), Tick 1]
         transferring) =
       trace transferring @
         [Debug (L_client_error (ErrorObj ''boom'')), Uncaught (Unhandled (ErrorObj ''boom'')),
          Send (S_progressUpdate 0 (Some [0, 0]) Infinity),
          Notify (N_download ''#/s'' ''#'' 0 [0, 0] Infinity)]"
  by code_simp

section \<open>destroy\<close>

lemma run_snoc: "run fb (evs @ [e]) s = step fb e (run fb evs s)"
  by (simp add: run_def)

text \<open>
  C3 (amended): \<open>destroy\<close> hands the call on to the WebTorrent client and returns
  \<open>null\<close>. Called \<open>n\<close> times in any state, it calls \<open>client.destroy()\<close> \<open>n\<close> times and
  changes nothing else: it emits no event, and the intervals that were running are
  still running.
\<close>

theorem destroy_repeated:
  "fst (destroy s) = None
   \<and> run fb (replicate n Call_destroy) s = s\<lparr>trace := trace s @ replicate n (Do Client_destroy)\<rparr>"
proof (induction n)
  case 0
  then show ?case by (simp add: destroy_def run_def)
next
  case (Suc n)
  have "replicate (Suc n) Call_destroy = replicate n Call_destroy @ [Call_destroy]"
    by (simp add: replicate_append_same)
  then have "run fb (replicate (Suc n) Call_destroy) s =
      step fb Call_destroy (run fb (replicate n Call_destroy) s)"
    by (simp only: run_snoc)
  with Suc show ?case
    by (simp add: destroy_def request_def replicate_append_same)
qed

theorem destroy_repeated_witness:
  "run format_plain [Call_destroy, Call_destroy] transferring =
     transferring\<lparr>trace := trace transferring @ [Do Client_destroy, Do Client_destroy]\<rparr>"
  using destroy_repeated [of transferring format_plain "Suc (Suc 0)"]
  by simp

text \<open>
  As the specification states it, the property fails in a session that is transferring:
  after \<open>destroy\<close> the interval is still there, no event has been emitted, and the next
  tick publishes a snapshot.
\<close>

theorem destroy_counterexample:
  "timers (step format_plain Call_destroy transferring) = [(1, 0)]
   \<and> notifications (trace (step format_plain Call_destroy transferring)) =
       notifications (trace transferring)
   \<and> trace (run format_plain [Call_destroy, Tick 1] transferring) =
       trace transferring @
         [Do Client_destroy,
          Send (S_progressUpdate 0 (Some [0, 0]) Infinity),
          Notify (N_download ''#/s'' ''#'' 0 [0, 0] Infinity)]"
  by code_simp

section \<open>A second session\<close>

text \<open>
  C4 (amended): a session start is never refused and never destroys anything. In any
  state, an \<open>addTorrent\<close> message or call passes the magnet URI to \<open>client.add\<close>, and
  \<open>sendFiles\<close> passes the files to \<open>client.seed\<close>; either adds one torrent after the
  torrents that are there and leaves them, their listeners and their intervals as they
  were.
\<close>

theorem second_session_added:
  "step fb (Sock_addTorrent m) s =
     s\<lparr>torrents := torrents s @ [new_torrent False m],
       trace := trace s @ [Do (Client_add m (TRACKER_URLS s))]\<rparr>
   \<and> step fb (Call_addTorrent m) s = step fb (Sock_addTorrent m) s
   \<and> step fb (Call_sendFiles fs) s =
     s\<lparr>torrents := torrents s @ [new_torrent True []],
       trace := trace s @ [Do (Client_seed fs (TRACKER_URLS s))]\<rparr>"
  by (simp add: addTorrent_def sendFiles_def request_def Let_def)

theorem second_session_added_witness:
  "torrents (step format_plain (Sock_addTorrent ''magnet:other'') transferring) =
     [transferring_torrent, new_torrent False ''magnet:other'']
   \<and> timers (step format_plain (Sock_addTorrent ''magnet:other'') transferring) = [(1, 0)]"
  using second_session_added [of format_plain "''magnet:other''" transferring]
  by (simp add: torrents_transferring timers_transferring)

text \<open>
  As the specification states it, the property fails: a second \<open>addTorrent\<close> message
  while the first torrent is transferring gives two torrents, each with its own running
  interval, and both publish snapshots.
\<close>

definition two_sessions :: client where
  "two_sessions =
     run format_plain
       [Sock_addTorrent ''magnet:other'', Swarm_update 1 two_files, Torrent_metadata 1,
        Torrent_ready 1]
       transferring"

theorem single_session_counterexample:
  "length (torrents two_sessions) = 2
   \<and> timers two_sessions = [(1, 0), (2, 1)]
   \<and> trace two_sessions = trace transferring @
       [Do (Client_add ''magnet:other'' [''wss://tracker.btorrent.xyz'']),
        Debug L_beginning_download, Do (File_getBlobURL 1 0), Do (File_getBlobURL 1 1),
        Do (Set_interval 2 500)]
   \<and> trace (run format_plain [Tick 1, Tick 2] two_sessions) = trace two_sessions @
       [Send (S_progressUpdate 0 (Some [0, 0]) Infinity),
        Notify (N_download ''#/s'' ''#'' 0 [0, 0] Infinity),
        Send (S_progressUpdate 0 (Some [0, 0]) Infinity),
        Notify (N_download ''#/s'' ''#'' 0 [0, 0] Infinity)]"
  by code_simp

end
